theory Spec2Isabelle
  imports Main
begin

section \<open>Data model\<close>

text \<open>
  The action under study is \<^verbatim>\<open>src/main.ts\<close>. JavaScript strings are modelled as
  \<^typ>\<open>string\<close>, one list element per code unit; nothing below depends on the width of a
  code unit.
\<close>

text \<open>\<^verbatim>\<open>type FileMetadata = { name: string, id: string }\<close> (lines 5-8).\<close>

record FileMetadata =
  name :: string
  id' :: string

text \<open>
  One entry of \<^verbatim>\<open>response.data.files\<close> of the listing call: the fields the code reads
  (\<^verbatim>\<open>file.name\<close>, \<^verbatim>\<open>file.id\<close>, \<^verbatim>\<open>file.mimeType\<close>).
\<close>

record DriveFile = FileMetadata +
  mimeType :: string

text \<open>The value handed to \<^verbatim>\<open>core.saveState\<close>.\<close>

datatype state_value = BoolValue bool | StringValue string

text \<open>The \<^verbatim>\<open>options\<close> object of an \<^verbatim>\<open>axios.get(url, options)\<close> call, with its URL.\<close>

datatype param = PString string | PBool bool | PNumber nat

record request =
  url :: string
  headers :: "(string \<times> string) list"
  params :: "(string \<times> param) list"
  responseType :: "string option"

text \<open>
  What \<^verbatim>\<open>await axios.get\<close> resolves to: the numeric status, and
  \<^verbatim>\<open>response.data.files\<close> when it is an array (\<open>None\<close> otherwise; the download call
  never reads it).
\<close>

record response =
  status :: nat
  files :: "DriveFile list option"

text \<open>Whatever makes a call throw, or an awaited promise reject.\<close>

datatype error = InvalidURL | AxiosRejected | MkdirFailed | FilesNotIterable

text \<open>
  Every observable effect of the action, in the order the code performs it: the calls into
  \<^verbatim>\<open>@actions/core\<close>, \<^verbatim>\<open>axios\<close> and \<^verbatim>\<open>fs\<close>.
\<close>

datatype event =
    SaveState string state_value
  | GetInput string
  | SetFailed string
  | CoreError string
  | CoreWarning string
  | CoreInfo string
  | AxiosGet request
  | MkdirSync string
  | CreateWriteStream string
  | Pipe string

text \<open>
  The surroundings the code reads from, none of which is code of this repository:
  \<^item> \<open>getInput\<close>: the string \<^verbatim>\<open>core.getInput(name)\<close> returns (the empty string for an
    input that is not set; never \<^verbatim>\<open>undefined\<close>);
  \<^item> \<open>getState\<close>: the string \<^verbatim>\<open>core.getState(name)\<close> returns;
  \<^item> \<open>pathname\<close>: \<^verbatim>\<open>new URL(s).pathname\<close>, \<open>None\<close> when the constructor throws;
  \<^item> \<open>axios_get\<close>: what \<^verbatim>\<open>await axios.get(url, options)\<close> resolves to, \<open>None\<close> when
    the promise rejects;
  \<^item> \<open>mkdir_ok\<close>: whether \<^verbatim>\<open>fs.mkdirSync(path)\<close> returns rather than throws.
\<close>

record env =
  getInput :: "string \<Rightarrow> string"
  getState :: "string \<Rightarrow> string"
  pathname :: "string \<Rightarrow> string option"
  axios_get :: "request \<Rightarrow> response option"
  mkdir_ok :: "string \<Rightarrow> bool"

section \<open>JavaScript string primitives\<close>

text \<open>A string is truthy exactly when it is not empty.\<close>

definition truthy :: "string \<Rightarrow> bool" where
  "truthy s = (s \<noteq> [])"

definition startsWith :: "string \<Rightarrow> string \<Rightarrow> bool" where
  "startsWith s p = (take (length p) s = p)"

definition endsWith :: "string \<Rightarrow> string \<Rightarrow> bool" where
  "endsWith s p = (length p \<le> length s \<and> drop (length s - length p) s = p)"

text \<open>
  \<^verbatim>\<open>String.prototype.slice(start, end)\<close> on integer arguments: a negative index counts
  from the end, both are clamped to the string, and the result is empty when the end is
  not after the start. The argument \<^verbatim>\<open>-0\<close> is the integer 0.
\<close>

definition slice :: "string \<Rightarrow> int \<Rightarrow> int \<Rightarrow> string" where
  "slice s start end' =
     (let len = int (length s);
          from = (if start < 0 then max (len + start) 0 else min start len);
          to = (if end' < 0 then max (len + end') 0 else min end' len);
          span = max (to - from) 0
      in take (nat span) (drop (nat from) s))"

text \<open>The decimal rendering of a number inside a template literal.\<close>

fun show_nat :: "nat \<Rightarrow> string" where
  "show_nat n =
     (if n < 10 then [''0123456789'' ! n]
      else show_nat (n div 10) @ [''0123456789'' ! (n mod 10)])"

declare show_nat.simps [simp del]

section \<open>The helpers of \<^verbatim>\<open>main.ts\<close>\<close>

text \<open>
  \<^verbatim>\<open>parseDriveIdFromURL\<close> (lines 10-28). The result pairs the log lines emitted with
  either the error thrown or the value returned (\<open>None\<close> for \<^verbatim>\<open>undefined\<close>).
\<close>

fun parseDriveIdFromURL ::
  "env \<Rightarrow> bool \<Rightarrow> string option \<Rightarrow> event list \<times> (error + string option)" where
  "parseDriveIdFromURL e isFile None = ([], Inr None)"
| "parseDriveIdFromURL e isFile (Some path) =
     (if \<not> truthy path then ([], Inr None)
      else
        let prefix = (if isFile then ''/file/d/'' else ''/drive/folders/'');
            suffix = (if isFile then ''/view'' else '''')
        in case pathname e path of
             None \<Rightarrow> ([], Inl InvalidURL)
           | Some urlPath \<Rightarrow>
               if \<not> startsWith urlPath prefix \<or> \<not> endsWith urlPath suffix
               then ([CoreError (''file-url path seems ill-formed: '' @ path @ '')'')],
                     Inr None)
               else ([], Inr (Some (slice urlPath (int (length prefix))
                                      (- int (length suffix))))))"

text \<open>\<^verbatim>\<open>getGoogleDriveUrl\<close> (lines 30-32).\<close>

definition getGoogleDriveUrl :: "string option \<Rightarrow> string" where
  "getGoogleDriveUrl driveId =
     ''https://www.googleapis.com/drive/v3/files/''
       @ (case driveId of None \<Rightarrow> '''' | Some d \<Rightarrow> d)"

text \<open>
  \<^verbatim>\<open>a ?? b\<close>: the right operand is evaluated, and its effects happen, only when the left
  one is \<^verbatim>\<open>null\<close> or \<^verbatim>\<open>undefined\<close> (\<open>None\<close>). An empty string is neither.
\<close>

definition nullish ::
  "'a option \<Rightarrow> event list \<times> (error + 'a option) \<Rightarrow> event list \<times> (error + 'a option)" where
  "nullish lhs rhs = (case lhs of Some v \<Rightarrow> ([], Inr (Some v)) | None \<Rightarrow> rhs)"

section \<open>The download operation\<close>

text \<open>The URL and \<^verbatim>\<open>options\<close> of \<^verbatim>\<open>downloadFile\<close> (lines 126-138).\<close>

definition download_request :: "string \<Rightarrow> FileMetadata \<Rightarrow> request" where
  "download_request token file =
     \<lparr>url = getGoogleDriveUrl (Some (id' file)),
      headers = [(''Authorization'', ''Bearer '' @ token),
                 (''Accept'', ''application/octet-stream'')],
      params = [(''alt'', PString ''media''), (''supportsAllDrives'', PBool True)],
      responseType = Some ''stream''\<rparr>"

text \<open>
  The part of \<^verbatim>\<open>downloadFile\<close> after \<^verbatim>\<open>await axios.get\<close> (lines 140-150): the events
  it adds and the error it rejects with, if any.
\<close>

definition downloadFile_resume ::
  "FileMetadata \<Rightarrow> response option \<Rightarrow> event list \<times> error option" where
  "downloadFile_resume file r =
     (case r of
        None \<Rightarrow> ([], Some AxiosRejected)
      | Some response \<Rightarrow>
          if status response \<noteq> 200
          then ([SetFailed (''Failed to get file from Google drive: ''
                             @ show_nat (status response))], None)
          else ([SaveState ''path'' (StringValue (name file)),
                 CreateWriteStream (name file),
                 Pipe (name file)], None))"

text \<open>\<^verbatim>\<open>downloadFile\<close> (lines 124-151), awaited to its end.\<close>

definition downloadFile ::
  "env \<Rightarrow> string \<Rightarrow> FileMetadata \<Rightarrow> event list \<times> error option" where
  "downloadFile e token file =
     (let req = download_request token file;
          (ev, r) = downloadFile_resume file (axios_get e req)
      in (AxiosGet req # ev, r))"

text \<open>
  What the events do to the persisted step state and to the files on disk:
  \<^verbatim>\<open>core.saveState\<close> writes a key, \<^verbatim>\<open>fs.createWriteStream\<close> creates the file.
\<close>

record world =
  saved :: "string \<rightharpoonup> state_value"
  written :: "string set"

fun apply_event :: "event \<Rightarrow> world \<Rightarrow> world" where
  "apply_event (SaveState k v) w = w\<lparr>saved := (saved w)(k \<mapsto> v)\<rparr>"
| "apply_event (CreateWriteStream p) w = w\<lparr>written := insert p (written w)\<rparr>"
| "apply_event _ w = w"

definition effect :: "event list \<Rightarrow> world \<Rightarrow> world" where
  "effect evs w = fold apply_event evs w"

text \<open>The failure messages and the network calls among a list of events.\<close>

fun failures :: "event list \<Rightarrow> string list" where
  "failures [] = []"
| "failures (SetFailed m # evs) = m # failures evs"
| "failures (_ # evs) = failures evs"

fun requests :: "event list \<Rightarrow> request list" where
  "requests [] = []"
| "requests (AxiosGet r # evs) = r # requests evs"
| "requests (_ # evs) = requests evs"

fun warnings :: "event list \<Rightarrow> string list" where
  "warnings [] = []"
| "warnings (CoreWarning m # evs) = m # warnings evs"
| "warnings (_ # evs) = warnings evs"

section \<open>The run phase\<close>

text \<open>
  What one call of \<^verbatim>\<open>run\<close> amounts to when its promise settles:
  \<^item> \<open>events\<close>: the effects up to that moment, in order;
  \<^item> \<open>outcome\<close>: \<open>None\<close> when the promise resolves, the error when it rejects;
  \<^item> \<open>resolved\<close>: the contents of the local array \<^verbatim>\<open>fileIds\<close> at that moment;
  \<^item> \<open>pending\<close>: the downloads started by the \<^verbatim>\<open>forEach\<close> of line 120, whose
    request is issued and whose continuation has not run yet.
\<close>

record run_result =
  events :: "event list"
  outcome :: "error option"
  resolved :: "FileMetadata list"
  pending :: "FileMetadata list"

definition returned :: "event list \<Rightarrow> FileMetadata list \<Rightarrow> run_result" where
  "returned ev ids = \<lparr>events = ev, outcome = None, resolved = ids, pending = []\<rparr>"

definition threw :: "event list \<Rightarrow> error \<Rightarrow> FileMetadata list \<Rightarrow> run_result" where
  "threw ev err ids = \<lparr>events = ev, outcome = Some err, resolved = ids, pending = []\<rparr>"

text \<open>The dispatch on \<^verbatim>\<open>fileIds.length\<close> (lines 112-121).\<close>

definition dispatch ::
  "env \<Rightarrow> string \<Rightarrow> string \<Rightarrow> event list \<Rightarrow> FileMetadata list \<Rightarrow> run_result" where
  "dispatch e token path ev fileIds =
     (if length fileIds = 0
      then returned (ev @ [SetFailed ''Failed to find any files to download'']) fileIds
      else if length fileIds = 1
      then (let (evd, r) = downloadFile e token (fileIds ! 0)
            in \<lparr>events = ev @ evd, outcome = r, resolved = fileIds, pending = []\<rparr>)
      else if mkdir_ok e path
      then \<lparr>events = ev @ [MkdirSync path]
                      @ map (\<lambda>fileId. AxiosGet (download_request token fileId)) fileIds,
            outcome = None, resolved = fileIds, pending = fileIds\<rparr>
      else threw (ev @ [MkdirSync path]) MkdirFailed fileIds)"

text \<open>The single-file branch (lines 64-72).\<close>

definition run_file ::
  "env \<Rightarrow> string \<Rightarrow> string \<Rightarrow> string \<Rightarrow> string \<Rightarrow> event list \<Rightarrow> run_result" where
  "run_file e token path fileId fileUrl ev =
     (case nullish (Some fileId) (parseDriveIdFromURL e True (Some fileUrl)) of
        (evp, Inl err) \<Rightarrow> threw (ev @ evp) err []
      | (evp, Inr finalFileId) \<Rightarrow>
          (case finalFileId of
             None \<Rightarrow> returned (ev @ evp @ [SetFailed ''Unknown file id'']) []
           | Some fid \<Rightarrow>
               if \<not> truthy fid
               then returned (ev @ evp @ [SetFailed ''Unknown file id'']) []
               else dispatch e token path
                      (ev @ evp @ [CoreInfo (''Downloading file with Id '' @ fileId)])
                      [\<lparr>name = path, id' = fid\<rparr>]))"

text \<open>The URL and \<^verbatim>\<open>options\<close> of the listing call (lines 81-92).\<close>

definition list_request :: "string \<Rightarrow> string \<Rightarrow> request" where
  "list_request token finalFolderId =
     \<lparr>url = getGoogleDriveUrl None,
      headers = [(''Authorization'', ''Bearer '' @ token)],
      params = [(''q'', PString ([CHR 0x27] @ finalFolderId @ [CHR 0x27] @ '' in parents'')),
                (''supportsAllDrives'', PBool True),
                (''pageSize'', PNumber 1000)],
      responseType = None\<rparr>"

text \<open>
  The \<^verbatim>\<open>forEach\<close> over \<^verbatim>\<open>response.data.files\<close> (lines 102-109), threading the array
  \<^verbatim>\<open>fileIds\<close> and the events.
\<close>

fun addFiles ::
  "DriveFile list \<Rightarrow> FileMetadata list \<times> event list \<Rightarrow> FileMetadata list \<times> event list" where
  "addFiles [] acc = acc"
| "addFiles (file # rest) (fileIds, ev) =
     (if mimeType file = ''application/vnd.google-apps.folder''
      then addFiles rest
             (fileIds,
              ev @ [CoreWarning (''Folder with name '' @ name file
                      @ '' found, skipping as nested folders are not supported'')])
      else addFiles rest
             (fileIds @ [\<lparr>name = name file, id' = id' file\<rparr>],
              ev @ [CoreInfo (''Adding file '' @ name file
                      @ '' to list of files to download'')]))"

text \<open>The folder branch (lines 73-110).\<close>

definition run_folder ::
  "env \<Rightarrow> string \<Rightarrow> string \<Rightarrow> string \<Rightarrow> string \<Rightarrow> event list \<Rightarrow> run_result" where
  "run_folder e token path folderId folderUrl ev =
     (case nullish (Some folderId) (parseDriveIdFromURL e False (Some folderUrl)) of
        (evp, Inl err) \<Rightarrow> threw (ev @ evp) err []
      | (evp, Inr finalFolderId) \<Rightarrow>
          (case finalFolderId of
             None \<Rightarrow> returned (ev @ evp @ [SetFailed ''Action could not determine folder id'']) []
           | Some fid \<Rightarrow>
               if \<not> truthy fid
               then returned
                      (ev @ evp @ [SetFailed ''Action could not determine folder id'']) []
               else
                 let req = list_request token fid;
                     ev' = ev @ evp @ [CoreInfo (''Searching folder with Id '' @ fid),
                                        AxiosGet req]
                 in case axios_get e req of
                      None \<Rightarrow> threw ev' AxiosRejected []
                    | Some response \<Rightarrow>
                        if status response \<noteq> 200
                        then returned
                               (ev' @ [SetFailed
                                  (''Failed to list files in folder from Google drive: ''
                                     @ show_nat (status response))]) []
                        else case files response of
                               None \<Rightarrow> threw ev' FilesNotIterable []
                             | Some fs \<Rightarrow>
                                 let (fileIds, ev'') = addFiles fs ([], ev')
                                 in dispatch e token path ev'' fileIds))"

text \<open>\<^verbatim>\<open>run\<close> (lines 34-122).\<close>

definition run :: "env \<Rightarrow> run_result" where
  "run e =
     (let ev0 = [SaveState ''isPost'' (BoolValue True)];
          token = getInput e ''token'';
          ev1 = ev0 @ [GetInput ''token'']
      in if \<not> truthy token
         then returned (ev1 @ [SetFailed ''No access token provided to action'']) []
         else
           let fileId = getInput e ''file-id'';
               fileUrl = getInput e ''file-url'';
               folderId = getInput e ''folder-id'';
               folderUrl = getInput e ''folder-url'';
               ev2 = ev1 @ [GetInput ''file-id'', GetInput ''file-url'',
                            GetInput ''folder-id'', GetInput ''folder-url'']
           in if \<not> truthy fileId \<and> \<not> truthy fileUrl \<and> \<not> truthy folderId
                   \<and> \<not> truthy folderUrl
              then returned
                     (ev2 @ [SetFailed (''You must define one of following four inputs: ''
                                @ ''fileId, fileUrl, folderId, folderUrl'')]) []
              else
                let path = getInput e ''path'';
                    ev3 = ev2 @ [GetInput ''path'']
                in if \<not> truthy path
                   then returned (ev3 @ [SetFailed ''No path provided to action'']) []
                   else
                     let isFile = (truthy fileId \<or> truthy fileUrl)
                     in if isFile
                        then run_file e token path fileId fileUrl ev3
                        else run_folder e token path folderId folderUrl ev3)"

text \<open>\<^verbatim>\<open>post\<close> (lines 153-161): its body is commented out.\<close>

definition post :: "env \<Rightarrow> run_result" where
  "post e = returned [] []"

text \<open>The statement at the top level of the module (lines 163-167).\<close>

definition entry :: "env \<Rightarrow> run_result" where
  "entry e = (if \<not> truthy (getState e ''isPost'') then run e else post e)"

section \<open>Concrete surroundings\<close>

text \<open>
  \<^verbatim>\<open>core.getInput\<close> over a table of the inputs that are set: the value of the input, or
  the empty string.
\<close>

definition inputs :: "(string \<times> string) list \<Rightarrow> string \<Rightarrow> string" where
  "inputs kvs n = (case map_of kvs n of None \<Rightarrow> [] | Some v \<Rightarrow> v)"

text \<open>The path component of four URLs, as the URL parser of the platform gives it.\<close>

definition urls :: "string \<rightharpoonup> string" where
  "urls = [''https://host/file/d/ABC123/view'' \<mapsto> ''/file/d/ABC123/view'',
           ''https://host/drive/folders/XYZ'' \<mapsto> ''/drive/folders/XYZ'',
           ''https://host/file/d/view'' \<mapsto> ''/file/d/view'',
           ''https://host/wrong/path'' \<mapsto> ''/wrong/path'']"

text \<open>Surroundings with the given inputs, in which every request gets the answer \<open>r\<close>.\<close>

definition env_of :: "(string \<times> string) list \<Rightarrow> response option \<Rightarrow> env" where
  "env_of kvs r =
     \<lparr>getInput = inputs kvs, getState = (\<lambda>_. []), pathname = urls,
      axios_get = (\<lambda>_. r), mkdir_ok = (\<lambda>_. True)\<rparr>"

definition env_file_url :: env where
  "env_file_url =
     env_of [(''token'', ''t''), (''file-url'', ''https://host/file/d/ABC123/view''),
             (''path'', ''out.bin'')]
       (Some \<lparr>status = 200, files = None\<rparr>)"

definition env_folder_url :: env where
  "env_folder_url =
     env_of [(''token'', ''t''), (''folder-url'', ''https://host/drive/folders/XYZ''),
             (''path'', ''out'')]
       (Some \<lparr>status = 200, files = Some []\<rparr>)"

definition env_listing :: "DriveFile list \<Rightarrow> env" where
  "env_listing fs =
     env_of [(''token'', ''t''), (''folder-id'', ''F1''), (''path'', ''out'')]
       (Some \<lparr>status = 200, files = Some fs\<rparr>)"

definition env_status :: "nat \<Rightarrow> env" where
  "env_status n =
     env_of [(''token'', ''t''), (''file-id'', ''F1''), (''path'', ''out.bin'')]
       (Some \<lparr>status = n, files = None\<rparr>)"

text \<open>
  \<^verbatim>\<open>axios.get\<close> as the library settles it when the options name no
  \<^verbatim>\<open>validateStatus\<close>, as on lines 83-92 and 128-138: the promise resolves exactly when
  the server answers with a status from 200 to 299, and rejects on every other status and
  when there is no answer.
\<close>

definition axios_default :: "(request \<Rightarrow> response option) \<Rightarrow> request \<Rightarrow> response option" where
  "axios_default server req =
     (case server req of
        None \<Rightarrow> None
      | Some r \<Rightarrow> if 200 \<le> status r \<and> status r < 300 then Some r else None)"

text \<open>Surroundings in which the server answers every request with the status \<open>n\<close>.\<close>

definition env_server :: "nat \<Rightarrow> env" where
  "env_server n =
     \<lparr>getInput = inputs [(''token'', ''t''), (''file-id'', ''F1''), (''path'', ''out.bin'')],
      getState = (\<lambda>_. []), pathname = urls,
      axios_get = axios_default (\<lambda>_. Some \<lparr>status = n, files = None\<rparr>),
      mkdir_ok = (\<lambda>_. True)\<rparr>"

definition folder_entry :: DriveFile where
  "folder_entry =
     \<lparr>name = ''sub'', id' = ''S'', mimeType = ''application/vnd.google-apps.folder''\<rparr>"

definition file_entry :: DriveFile where
  "file_entry = \<lparr>name = ''a.txt'', id' = ''A'', mimeType = ''text/plain''\<rparr>"

definition world0 :: world where
  "world0 = \<lparr>saved = Map.empty, written = {}\<rparr>"

section \<open>Shorthands for the listing loop\<close>

definition toMeta :: "DriveFile \<Rightarrow> FileMetadata" where
  "toMeta file = \<lparr>name = name file, id' = id' file\<rparr>"

definition isFolder :: "DriveFile \<Rightarrow> bool" where
  "isFolder file = (mimeType file = ''application/vnd.google-apps.folder'')"

definition skip_warning :: "DriveFile \<Rightarrow> string" where
  "skip_warning file =
     ''Folder with name '' @ name file
       @ '' found, skipping as nested folders are not supported''"

definition add_info :: "DriveFile \<Rightarrow> string" where
  "add_info file = ''Adding file '' @ name file @ '' to list of files to download''"

section \<open>The URL parser\<close>

text \<open>
  What \<^verbatim>\<open>parseDriveIdFromURL\<close> does on each shape of input, for any URL parser of the
  platform.
\<close>

lemma parse_absent:
  "parseDriveIdFromURL e isFile None = ([], Inr None)"
  "parseDriveIdFromURL e isFile (Some []) = ([], Inr None)"
  by (simp_all add: truthy_def)

lemma parse_invalid_url:
  "u \<noteq> [] \<Longrightarrow> pathname e u = None \<Longrightarrow>
   parseDriveIdFromURL e isFile (Some u) = ([], Inl InvalidURL)"
  by (simp add: truthy_def)

lemma parse_ill_formed:
  "u \<noteq> [] \<Longrightarrow> pathname e u = Some urlPath \<Longrightarrow>
   \<not> startsWith urlPath (if isFile then ''/file/d/'' else ''/drive/folders/'')
     \<or> \<not> endsWith urlPath (if isFile then ''/view'' else []) \<Longrightarrow>
   parseDriveIdFromURL e isFile (Some u)
     = ([CoreError (''file-url path seems ill-formed: '' @ u @ '')'')], Inr None)"
  by (auto simp add: truthy_def Let_def)

lemma parse_file_shape:
  "u \<noteq> [] \<Longrightarrow> pathname e u = Some (''/file/d/'' @ X @ ''/view'') \<Longrightarrow>
   parseDriveIdFromURL e True (Some u) = ([], Inr (Some X))"
  by (simp add: truthy_def startsWith_def endsWith_def slice_def Let_def)

text \<open>
  With the empty suffix the end index of the slice is \<^verbatim>\<open>-0\<close>, that is 0, so the slice is
  empty whatever follows the prefix.
\<close>

lemma parse_folder_shape:
  "u \<noteq> [] \<Longrightarrow> pathname e u = Some (''/drive/folders/'' @ X) \<Longrightarrow>
   parseDriveIdFromURL e False (Some u) = ([], Inr (Some []))"
  by (simp add: truthy_def startsWith_def endsWith_def slice_def Let_def)

text \<open>
  Claim C2: for a folder URL whose path is \<^verbatim>\<open>/drive/folders/\<close> followed by an identifier,
  the parser should return that identifier. The code does not: on
  \<^verbatim>\<open>https://host/drive/folders/XYZ\<close> it returns the empty string, with no log line.
\<close>

theorem parse_folder_url_XYZ:
  "parseDriveIdFromURL env_folder_url False (Some ''https://host/drive/folders/XYZ'')
     = ([], Inr (Some ''''))"
  by (simp add: env_folder_url_def env_of_def urls_def truthy_def startsWith_def
        endsWith_def slice_def Let_def)

text \<open>
  Claim C3: on a file URL whose path is \<^verbatim>\<open>/file/d/\<close>, an identifier \<open>X\<close> and
  \<^verbatim>\<open>/view\<close>, the parser returns exactly \<open>X\<close> and logs nothing. This holds for every
  \<open>X\<close>, so in particular for every \<open>X\<close> without a slash.
\<close>

theorem parse_file_url_returns_id:
  assumes "u \<noteq> []" and "pathname e u = Some (''/file/d/'' @ X @ ''/view'')"
  shows "parseDriveIdFromURL e True (Some u) = ([], Inr (Some X))"
  using assms by (rule parse_file_shape)

theorem parse_file_url_returns_id_witness:
  "''https://host/file/d/ABC123/view'' \<noteq> []
   \<and> pathname env_file_url ''https://host/file/d/ABC123/view''
       = Some (''/file/d/'' @ ''ABC123'' @ ''/view'')
   \<and> parseDriveIdFromURL env_file_url True (Some ''https://host/file/d/ABC123/view'')
       = ([], Inr (Some ''ABC123''))"
  using parse_file_url_returns_id
          [of "''https://host/file/d/ABC123/view''" env_file_url "''ABC123''"]
  by (simp add: env_file_url_def env_of_def urls_def)

text \<open>
  Claim C4: on a URL whose path has the wrong shape, the parser should return nothing and
  log the one error \<^verbatim>\<open>file-url path seems ill-formed: \<close> followed by the input. The
  code returns nothing and logs one error, whose text ends with a closing parenthesis after
  the input.
\<close>

theorem parse_wrong_path_message:
  "parseDriveIdFromURL env_file_url True (Some ''https://host/wrong/path'')
     = ([CoreError ''file-url path seems ill-formed: https://host/wrong/path)''], Inr None)"
  by (simp add: env_file_url_def env_of_def urls_def truthy_def startsWith_def Let_def)

text \<open>
  Claim C10: when the path of a file URL is \<^verbatim>\<open>/file/d/view\<close>, where the prefix and the
  suffix overlap, both shape checks pass and the parser returns the empty string, present
  and with no error logged.
\<close>

theorem parse_overlap_empty_id:
  assumes "u \<noteq> []" and "pathname e u = Some ''/file/d/view''"
  shows "parseDriveIdFromURL e True (Some u) = ([], Inr (Some ''''))"
  using assms
  by (simp add: truthy_def startsWith_def endsWith_def slice_def Let_def)

theorem parse_overlap_empty_id_witness:
  "''https://host/file/d/view'' \<noteq> []
   \<and> pathname env_file_url ''https://host/file/d/view'' = Some ''/file/d/view''
   \<and> parseDriveIdFromURL env_file_url True (Some ''https://host/file/d/view'')
       = ([], Inr (Some ''''))"
  using parse_overlap_empty_id [of "''https://host/file/d/view''" env_file_url]
  by (simp add: env_file_url_def env_of_def urls_def)

section \<open>The endpoint builder\<close>

text \<open>
  Claim C5: \<^verbatim>\<open>getGoogleDriveUrl\<close> depends on its argument only; with an identifier it is
  the base URL followed by the identifier, and without one it is the base URL with its
  trailing slash.
\<close>

theorem getGoogleDriveUrl_value:
  "getGoogleDriveUrl (Some d) = ''https://www.googleapis.com/drive/v3/files/'' @ d
   \<and> getGoogleDriveUrl None = ''https://www.googleapis.com/drive/v3/files/''"
  by (simp add: getGoogleDriveUrl_def)

section \<open>Events of the run phase\<close>

lemma warnings_append: "warnings (xs @ ys) = warnings xs @ warnings ys"
  by (induction xs rule: warnings.induct) simp_all

lemma failures_append: "failures (xs @ ys) = failures xs @ failures ys"
  by (induction xs rule: failures.induct) simp_all

lemma requests_append: "requests (xs @ ys) = requests xs @ requests ys"
  by (induction xs rule: requests.induct) simp_all

text \<open>The loop keeps the entries that are not folders, in order, and logs one line each.\<close>

lemma addFiles_acc:
  "addFiles fs (ids, ev) =
     (ids @ map toMeta (filter (\<lambda>f. \<not> isFolder f) fs),
      ev @ map (\<lambda>f. if isFolder f then CoreWarning (skip_warning f)
                     else CoreInfo (add_info f)) fs)"
  by (induction fs arbitrary: ids ev)
     (simp_all add: toMeta_def isFolder_def skip_warning_def add_info_def)

lemma addFiles_events: "\<exists>u. snd (addFiles fs (ids, ev)) = ev @ u"
  by (simp add: addFiles_acc)

lemma warnings_of_loop:
  "warnings (map (\<lambda>f. if isFolder f then CoreWarning (skip_warning f)
                       else CoreInfo (add_info f)) fs)
     = map skip_warning (filter isFolder fs)"
  by (induction fs) simp_all

lemma failures_of_loop:
  "failures (map (\<lambda>f. if isFolder f then CoreWarning (skip_warning f)
                       else CoreInfo (add_info f)) fs) = []"
  by (induction fs) simp_all

lemma warnings_of_requests: "warnings (map (\<lambda>f. AxiosGet (g f)) xs) = []"
  by (induction xs) simp_all

lemma downloadFile_warnings: "warnings (fst (downloadFile e token file)) = []"
  by (simp add: downloadFile_def downloadFile_resume_def Let_def split: option.splits)

lemma dispatch_events: "\<exists>t. events (dispatch e token path ev ids) = ev @ t"
  by (simp add: dispatch_def returned_def threw_def Let_def split: prod.splits)

lemma dispatch_warnings: "warnings (events (dispatch e token path ev ids)) = warnings ev"
  using downloadFile_warnings [of e token "ids ! 0"]
  by (auto simp add: dispatch_def returned_def threw_def Let_def warnings_append
        warnings_of_requests split: prod.splits)

lemma dispatch_resolved: "resolved (dispatch e token path ev ids) = ids"
  by (simp add: dispatch_def returned_def threw_def Let_def split: prod.splits)

lemma run_file_events: "\<exists>t. events (run_file e token path fileId fileUrl ev) = ev @ t"
  using dispatch_events
          [of e token path "ev @ [CoreInfo (''Downloading file with Id '' @ fileId)]"]
  by (auto simp add: run_file_def nullish_def returned_def threw_def)

lemma run_folder_events:
  "\<exists>t. events (run_folder e token path folderId folderUrl ev) = ev @ t"
proof (cases "truthy folderId")
  case False
  then show ?thesis
    by (simp add: run_folder_def nullish_def returned_def)
next
  case True
  let ?req = "list_request token folderId"
  let ?ev' = "ev @ [CoreInfo (''Searching folder with Id '' @ folderId), AxiosGet ?req]"
  show ?thesis
  proof (cases "axios_get e ?req")
    case None
    with True show ?thesis
      by (simp add: run_folder_def nullish_def threw_def Let_def)
  next
    case answered: (Some response)
    show ?thesis
    proof (cases "status response = 200")
      case False
      with True answered show ?thesis
        by (simp add: run_folder_def nullish_def returned_def Let_def)
    next
      case ok: True
      show ?thesis
      proof (cases "files response")
        case None
        with True answered ok show ?thesis
          by (simp add: run_folder_def nullish_def threw_def Let_def)
      next
        case (Some fs)
        obtain ids ev'' where a: "addFiles fs ([], ?ev') = (ids, ev'')"
          by force
        obtain u where "snd (addFiles fs ([], ?ev')) = ?ev' @ u"
          using addFiles_events by blast
        with a have u: "ev'' = ?ev' @ u"
          by simp
        obtain t where "events (dispatch e token path ev'' ids) = ev'' @ t"
          using dispatch_events by blast
        with True answered ok Some a u show ?thesis
          by (simp add: run_folder_def nullish_def Let_def)
      qed
    qed
  qed
qed

text \<open>
  Claim C6: in every execution of \<^verbatim>\<open>run\<close>, whatever the inputs and the answers of the
  network, and whether the run fails or not, the first effect is the write
  \<^verbatim>\<open>isPost = true\<close> to the persisted state; every input read, failure signal and network
  call comes after it.
\<close>

theorem run_saves_isPost_first:
  "\<exists>rest. events (run e) = SaveState ''isPost'' (BoolValue True) # rest"
proof -
  let ?ev3 = "[SaveState ''isPost'' (BoolValue True), GetInput ''token'',
     GetInput ''file-id'', GetInput ''file-url'', GetInput ''folder-id'',
     GetInput ''folder-url'', GetInput ''path'']"
  obtain t1 where "events (run_file e (getInput e ''token'') (getInput e ''path'')
      (getInput e ''file-id'') (getInput e ''file-url'') ?ev3) = ?ev3 @ t1"
    using run_file_events by blast
  moreover obtain t2 where "events (run_folder e (getInput e ''token'') (getInput e ''path'')
      (getInput e ''folder-id'') (getInput e ''folder-url'') ?ev3) = ?ev3 @ t2"
    using run_folder_events by blast
  ultimately show ?thesis
    by (simp add: run_def Let_def returned_def)
qed

text \<open>
  Claim C7: with an empty token the run fails with exactly
  \<^verbatim>\<open>No access token provided to action\<close>; with a token and none of the four identifier
  inputs it fails with exactly the four-input message. In both cases no network call is
  made, none is left pending, and the run returns.
\<close>

theorem run_missing_config_fails:
  "(getInput e ''token'' = [] \<longrightarrow>
      failures (events (run e)) = [''No access token provided to action'']
      \<and> requests (events (run e)) = [] \<and> pending (run e) = [] \<and> outcome (run e) = None)
   \<and> (getInput e ''token'' \<noteq> [] \<and> getInput e ''file-id'' = []
        \<and> getInput e ''file-url'' = [] \<and> getInput e ''folder-id'' = []
        \<and> getInput e ''folder-url'' = [] \<longrightarrow>
      failures (events (run e))
        = [''You must define one of following four inputs: fileId, fileUrl, folderId, folderUrl'']
      \<and> requests (events (run e)) = [] \<and> pending (run e) = [] \<and> outcome (run e) = None)"
  by (simp add: run_def Let_def truthy_def returned_def)

theorem run_missing_config_fails_witness:
  "getInput (env_of [] None) ''token'' = []
   \<and> failures (events (run (env_of [] None))) = [''No access token provided to action'']
   \<and> requests (events (run (env_of [] None))) = []
   \<and> getInput (env_of [(''token'', ''t'')] None) ''token'' = ''t''
   \<and> getInput (env_of [(''token'', ''t'')] None) ''file-id'' = []
   \<and> failures (events (run (env_of [(''token'', ''t'')] None)))
       = [''You must define one of following four inputs: fileId, fileUrl, folderId, folderUrl'']
   \<and> requests (events (run (env_of [(''token'', ''t'')] None))) = []"
  using run_missing_config_fails [of "env_of [] None"]
    run_missing_config_fails [of "env_of [(''token'', ''t'')] None"]
  by (simp add: env_of_def inputs_def)

section \<open>Resolution of the identifier\<close>

text \<open>
  \<^verbatim>\<open>core.getInput\<close> returns a string, so the left operand of \<^verbatim>\<open>??\<close> on lines 66 and 75
  is never nullish: the URL is not parsed, and an empty identifier input fails the run.
\<close>

lemma run_file_url_only:
  assumes "getInput e ''token'' \<noteq> []" "getInput e ''file-id'' = []"
    "getInput e ''file-url'' \<noteq> []" "getInput e ''path'' \<noteq> []"
  shows "failures (events (run e)) = [''Unknown file id'']
         \<and> requests (events (run e)) = [] \<and> resolved (run e) = []"
  using assms
  by (simp add: run_def run_file_def nullish_def truthy_def Let_def returned_def)

lemma run_folder_url_only:
  assumes "getInput e ''token'' \<noteq> []" "getInput e ''file-id'' = []"
    "getInput e ''file-url'' = []" "getInput e ''folder-id'' = []"
    "getInput e ''folder-url'' \<noteq> []" "getInput e ''path'' \<noteq> []"
  shows "failures (events (run e)) = [''Action could not determine folder id'']
         \<and> requests (events (run e)) = [] \<and> resolved (run e) = []"
  using assms
  by (simp add: run_def run_folder_def nullish_def truthy_def Let_def returned_def)

text \<open>
  Claim C1: with \<^verbatim>\<open>file-id\<close> empty and \<^verbatim>\<open>file-url\<close> given, the identifier should be
  what the parser makes of the URL, and the run should fail with \<^verbatim>\<open>Unknown file id\<close>
  only when the parser yields none. The code does not: with the URL
  \<^verbatim>\<open>https://host/file/d/ABC123/view\<close> the parser yields \<^verbatim>\<open>ABC123\<close>, and the run fails
  with \<^verbatim>\<open>Unknown file id\<close>, resolving no file and making no network call.
\<close>

theorem run_file_url_not_resolved:
  "getInput env_file_url ''file-id'' = []
   \<and> getInput env_file_url ''file-url'' = ''https://host/file/d/ABC123/view''
   \<and> parseDriveIdFromURL env_file_url True (Some (getInput env_file_url ''file-url''))
       = ([], Inr (Some ''ABC123''))
   \<and> failures (events (run env_file_url)) = [''Unknown file id'']
   \<and> resolved (run env_file_url) = []
   \<and> requests (events (run env_file_url)) = []"
proof -
  have inp: "getInput env_file_url ''file-id'' = []"
    "getInput env_file_url ''file-url'' = ''https://host/file/d/ABC123/view''"
    "getInput env_file_url ''token'' = ''t''"
    "getInput env_file_url ''path'' = ''out.bin''"
    by (simp_all add: env_file_url_def env_of_def inputs_def)
  have "pathname env_file_url ''https://host/file/d/ABC123/view''
          = Some (''/file/d/'' @ ''ABC123'' @ ''/view'')"
    by (simp add: env_file_url_def env_of_def urls_def)
  then have "parseDriveIdFromURL env_file_url True (Some ''https://host/file/d/ABC123/view'')
      = ([], Inr (Some ''ABC123''))"
    by (intro parse_file_shape) simp_all
  moreover have "failures (events (run env_file_url)) = [''Unknown file id'']
         \<and> requests (events (run env_file_url)) = [] \<and> resolved (run env_file_url) = []"
    by (rule run_file_url_only) (simp_all add: inp)
  ultimately show ?thesis
    by (simp add: inp)
qed

section \<open>The folder listing\<close>

text \<open>Once the listing is answered with status 200, the run continues with the dispatch.\<close>

lemma run_listing:
  assumes "getInput e ''token'' \<noteq> []" "getInput e ''file-id'' = []"
    "getInput e ''file-url'' = []" "getInput e ''folder-id'' \<noteq> []"
    "getInput e ''path'' \<noteq> []"
    and "axios_get e (list_request (getInput e ''token'') (getInput e ''folder-id''))
           = Some resp"
    and "status resp = 200" "files resp = Some fs"
  shows "run e = dispatch e (getInput e ''token'') (getInput e ''path'')
           ([SaveState ''isPost'' (BoolValue True), GetInput ''token'',
             GetInput ''file-id'', GetInput ''file-url'', GetInput ''folder-id'',
             GetInput ''folder-url'', GetInput ''path'',
             CoreInfo (''Searching folder with Id '' @ getInput e ''folder-id''),
             AxiosGet (list_request (getInput e ''token'') (getInput e ''folder-id''))]
            @ map (\<lambda>f. if isFolder f then CoreWarning (skip_warning f)
                        else CoreInfo (add_info f)) fs)
           (map toMeta (filter (\<lambda>f. \<not> isFolder f) fs))"
  using assms
  by (simp add: run_def run_folder_def nullish_def truthy_def Let_def addFiles_acc)

text \<open>
  Claim C8: when the folder listing is answered with status 200, the files resolved are
  exactly the entries whose MIME type is not \<^verbatim>\<open>application/vnd.google-apps.folder\<close>, in
  order, each as its name and identifier; every folder entry gives one warning and is
  skipped; and when no entry is left the run fails with
  \<^verbatim>\<open>Failed to find any files to download\<close>. The listing is reached when the token, the
  folder identifier and the path are set and neither file input is.
\<close>

theorem run_listing_skips_folders:
  assumes "getInput e ''token'' \<noteq> []" "getInput e ''file-id'' = []"
    "getInput e ''file-url'' = []" "getInput e ''folder-id'' \<noteq> []"
    "getInput e ''path'' \<noteq> []"
    and "axios_get e (list_request (getInput e ''token'') (getInput e ''folder-id''))
           = Some resp"
    and "status resp = 200" "files resp = Some fs"
  shows "resolved (run e)
           = map (\<lambda>file. \<lparr>name = name file, id' = id' file\<rparr>)
               (filter (\<lambda>file. mimeType file \<noteq> ''application/vnd.google-apps.folder'') fs)
         \<and> warnings (events (run e))
           = map (\<lambda>file. ''Folder with name '' @ name file
                      @ '' found, skipping as nested folders are not supported'')
               (filter (\<lambda>file. mimeType file = ''application/vnd.google-apps.folder'') fs)
         \<and> (filter (\<lambda>file. mimeType file \<noteq> ''application/vnd.google-apps.folder'') fs = []
              \<longrightarrow> failures (events (run e)) = [''Failed to find any files to download'']
                \<and> outcome (run e) = None \<and> pending (run e) = [])"
proof -
  note r = run_listing [OF assms]
  have a: "resolved (run e) = map toMeta (filter (\<lambda>f. \<not> isFolder f) fs)"
    by (simp add: r dispatch_resolved)
  have b: "warnings (events (run e)) = map skip_warning (filter isFolder fs)"
    by (simp add: r dispatch_warnings warnings_append warnings_of_loop)
  have c: "failures (events (run e)) = [''Failed to find any files to download'']
           \<and> outcome (run e) = None \<and> pending (run e) = []"
    if "filter (\<lambda>f. \<not> isFolder f) fs = []"
    using that
    by (simp add: r dispatch_def returned_def failures_append failures_of_loop)
  from a b c show ?thesis
    unfolding toMeta_def isFolder_def skip_warning_def by blast
qed

theorem run_listing_skips_folders_witness:
  "resolved (run (env_listing [folder_entry])) = []
   \<and> warnings (events (run (env_listing [folder_entry])))
       = [''Folder with name sub found, skipping as nested folders are not supported'']
   \<and> failures (events (run (env_listing [folder_entry])))
       = [''Failed to find any files to download'']
   \<and> resolved (run (env_listing [folder_entry, file_entry]))
       = [\<lparr>name = ''a.txt'', id' = ''A''\<rparr>]
   \<and> warnings (events (run (env_listing [folder_entry, file_entry])))
       = [''Folder with name sub found, skipping as nested folders are not supported'']"
  using run_listing_skips_folders
          [of "env_listing [folder_entry]"
              "\<lparr>status = 200, files = Some [folder_entry]\<rparr>" "[folder_entry]"]
    run_listing_skips_folders
          [of "env_listing [folder_entry, file_entry]"
              "\<lparr>status = 200, files = Some [folder_entry, file_entry]\<rparr>"
              "[folder_entry, file_entry]"]
  by (simp add: env_listing_def env_of_def inputs_def folder_entry_def file_entry_def)

section \<open>The download operation on its answer\<close>

text \<open>
  When the promise of the download request resolves: with a status other than 200 the step
  is failed with the status in the message and nothing is written; with status 200 the
  state key \<^verbatim>\<open>path\<close> is written before the write stream is opened.
\<close>

lemma downloadFile_resolved:
  assumes "axios_get e (download_request token file) = Some resp"
  shows "(status resp \<noteq> 200 \<longrightarrow>
            downloadFile e token file
              = ([AxiosGet (download_request token file),
                  SetFailed (''Failed to get file from Google drive: ''
                               @ show_nat (status resp))],
                 None)
            \<and> saved (effect (fst (downloadFile e token file)) w) = saved w
            \<and> written (effect (fst (downloadFile e token file)) w) = written w)
         \<and> (status resp = 200 \<longrightarrow>
            downloadFile e token file
              = ([AxiosGet (download_request token file),
                  SaveState ''path'' (StringValue (name file)),
                  CreateWriteStream (name file),
                  Pipe (name file)], None)
            \<and> saved (effect (fst (downloadFile e token file)) w) ''path''
                = Some (StringValue (name file)))"
  using assms
  by (simp add: downloadFile_def downloadFile_resume_def effect_def Let_def)

lemma downloadFile_resolved_example:
  "downloadFile (env_status 204) ''t'' \<lparr>name = ''out.bin'', id' = ''F1''\<rparr>
     = ([AxiosGet (download_request ''t'' \<lparr>name = ''out.bin'', id' = ''F1''\<rparr>),
         SetFailed ''Failed to get file from Google drive: 204''], None)
   \<and> saved (effect (fst (downloadFile (env_status 204) ''t''
                            \<lparr>name = ''out.bin'', id' = ''F1''\<rparr>)) world0) ''path'' = None
   \<and> written (effect (fst (downloadFile (env_status 204) ''t''
                            \<lparr>name = ''out.bin'', id' = ''F1''\<rparr>)) world0) = {}
   \<and> downloadFile (env_status 200) ''t'' \<lparr>name = ''out.bin'', id' = ''F1''\<rparr>
     = ([AxiosGet (download_request ''t'' \<lparr>name = ''out.bin'', id' = ''F1''\<rparr>),
         SaveState ''path'' (StringValue ''out.bin''),
         CreateWriteStream ''out.bin'',
         Pipe ''out.bin''], None)
   \<and> saved (effect (fst (downloadFile (env_status 200) ''t''
                            \<lparr>name = ''out.bin'', id' = ''F1''\<rparr>)) world0) ''path''
       = Some (StringValue ''out.bin'')"
  using downloadFile_resolved
          [of "env_status 204" "''t''" "\<lparr>name = ''out.bin'', id' = ''F1''\<rparr>"
              "\<lparr>status = 204, files = None\<rparr>" world0]
    downloadFile_resolved
          [of "env_status 200" "''t''" "\<lparr>name = ''out.bin'', id' = ''F1''\<rparr>"
              "\<lparr>status = 200, files = None\<rparr>" world0]
  by (simp add: env_status_def env_of_def world0_def effect_def show_nat.simps)

text \<open>
  When the promise rejects, the \<^verbatim>\<open>await\<close> of line 140 throws and nothing after it runs:
  no failure is signalled and nothing is written.
\<close>

lemma downloadFile_rejected:
  assumes "axios_get e (download_request token file) = None"
  shows "downloadFile e token file
           = ([AxiosGet (download_request token file)], Some AxiosRejected)"
  using assms
  by (simp add: downloadFile_def downloadFile_resume_def Let_def)

text \<open>
  So under the library's default, every answer with a status outside 200 to 299 ends the
  download with the rejection, and the check of line 141 is reached for the statuses 201
  to 299 only.
\<close>

lemma downloadFile_outside_2xx:
  assumes "axios_get e = axios_default server"
    and "server (download_request token file) = Some r"
    and "status r < 200 \<or> 300 \<le> status r"
  shows "downloadFile e token file
           = ([AxiosGet (download_request token file)], Some AxiosRejected)
         \<and> failures (fst (downloadFile e token file)) = []
         \<and> effect (fst (downloadFile e token file)) w = w"
proof -
  from assms have "axios_get e (download_request token file) = None"
    by (auto simp add: axios_default_def)
  then have "downloadFile e token file
           = ([AxiosGet (download_request token file)], Some AxiosRejected)"
    by (rule downloadFile_rejected)
  then show ?thesis
    by (simp add: effect_def)
qed

text \<open>
  Claim C9: whenever the download is answered with a status other than 200, the step
  should be failed with \<^verbatim>\<open>Failed to get file from Google drive: \<close> followed by the
  status, with nothing written. The code does not signal the failure when the server
  answers with status 500: the request is issued, the promise rejects, \<^verbatim>\<open>downloadFile\<close>
  and with it \<^verbatim>\<open>run\<close> end with the rejection, and \<^verbatim>\<open>core.setFailed\<close> is never
  called. Nothing is written, as the claim says.
\<close>

theorem downloadFile_status_500:
  "downloadFile (env_server 500) ''t'' \<lparr>name = ''out.bin'', id' = ''F1''\<rparr>
     = ([AxiosGet (download_request ''t'' \<lparr>name = ''out.bin'', id' = ''F1''\<rparr>)],
        Some AxiosRejected)
   \<and> failures (fst (downloadFile (env_server 500) ''t''
                       \<lparr>name = ''out.bin'', id' = ''F1''\<rparr>)) = []
   \<and> failures (events (run (env_server 500))) = []
   \<and> outcome (run (env_server 500)) = Some AxiosRejected
   \<and> effect (fst (downloadFile (env_server 500) ''t''
                     \<lparr>name = ''out.bin'', id' = ''F1''\<rparr>)) world0 = world0"
proof -
  let ?file = "\<lparr>name = ''out.bin'', id' = ''F1''\<rparr>"
  have rej: "axios_get (env_server 500) req = None" for req
    by (simp add: env_server_def axios_default_def)
  have d: "downloadFile (env_server 500) ''t'' ?file
             = ([AxiosGet (download_request ''t'' ?file)], Some AxiosRejected)"
    using rej by (rule downloadFile_rejected)
  have inp: "getInput (env_server 500) ''token'' = ''t''"
    "getInput (env_server 500) ''file-id'' = ''F1''"
    "getInput (env_server 500) ''path'' = ''out.bin''"
    by (simp_all add: env_server_def inputs_def)
  have r: "run (env_server 500)
             = dispatch (env_server 500) ''t'' ''out.bin''
                 [SaveState ''isPost'' (BoolValue True), GetInput ''token'',
                  GetInput ''file-id'', GetInput ''file-url'', GetInput ''folder-id'',
                  GetInput ''folder-url'', GetInput ''path'',
                  CoreInfo ''Downloading file with Id F1'']
                 [?file]"
    by (simp add: run_def run_file_def nullish_def truthy_def Let_def inp)
  have "failures (events (run (env_server 500))) = []
        \<and> outcome (run (env_server 500)) = Some AxiosRejected"
    by (simp add: r dispatch_def d)
  with d show ?thesis
    by (simp add: effect_def)
qed

end
